theory Spec2Isabelle
  imports Complex_Main "HOL-Library.Sublist"
begin

section \<open>The PDF editor component: data model\<close>

text \<open>
  The component keeps two lists in its state, \<open>textEdits\<close> and \<open>imageEdits\<close>.
  JavaScript numbers are modelled as reals (no rounding and no \<open>NaN\<close>), page
  numbers as integers, strings as \<open>string\<close>. The optional flags \<open>isEditing?\<close> and \<open>isOriginal?\<close> are
  \<open>bool option\<close>, \<open>None\<close> standing for \<open>undefined\<close>; the code only ever
  tests them for truthiness. The field \<open>id\<close> is called \<open>edit_id\<close> here, since
  \<open>id\<close> is the identity function of HOL.
\<close>

record TextEdit =
  edit_id :: string
  page_number :: int
  content :: string
  position_x :: real
  position_y :: real
  font_size :: real
  color :: string
  isEditing :: "bool option"
  isOriginal :: "bool option"

record ImageEdit =
  img_id :: string
  img_page_number :: int
  image_url :: string
  img_position_x :: real
  img_position_y :: real
  width :: real
  height :: real
  is_deleted :: bool

text \<open>Truthiness of an optional boolean: \<open>undefined\<close> and \<open>false\<close> are falsy.\<close>

definition truthy :: "bool option \<Rightarrow> bool" where
  "truthy b = (b = Some True)"

text \<open>The mask rectangles painted over the original glyphs of a page.\<close>

record mask =
  mask_x :: real
  mask_y :: real
  mask_w :: real
  mask_h :: real

subsection \<open>The persistence layer, notifications and the console\<close>

text \<open>
  A row handed to \<open>supabase.from("pdf_edits").insert\<close> by the text paths, and the
  calls the component issues to the table. The calls are collected in the order of issue
  in the field \<open>db_calls\<close> of the state.
\<close>

record pdf_edits_row =
  row_id :: string
  report_id :: string
  row_page_number :: int
  edit_type :: string
  row_content :: string
  row_position_x :: real
  row_position_y :: real
  row_font_size :: real
  row_color :: string

datatype db_call =
    DbInsert pdf_edits_row
  | DbUpdateContent string string
  | DbDelete string

record toast =
  title :: string
  description :: string
  variant :: "string option"

text \<open>What the export draws on the loaded document, page index first (zero based).\<close>

datatype draw_op =
    DrawText nat string real real real "real \<times> real \<times> real"
  | DrawPng nat string real real real real
  | DrawJpg nat string real real real real

text \<open>
  The state of the component that the operations below read and write, together with
  the trace of its effects: the calls to the table, the toasts shown, the messages of
  \<open>console.error\<close> (message and error), and the documents offered for download (each
  the list of drawing operations applied to the loaded source document).
\<close>

record editor =
  reportId :: string
  scale :: real
  textEdits :: "TextEdit list"
  imageEdits :: "ImageEdit list"
  originalMasks :: "int \<Rightarrow> mask list option"
  db_calls :: "db_call list"
  toasts :: "toast list"
  console :: "(string \<times> string) list"
  downloads :: "draw_op list list"

text \<open>
  What one handler invocation receives from outside: the value \<open>crypto.randomUUID()\<close>
  returns in it, and the \<open>error\<close> field of the answer of the table (\<open>None\<close> for
  success).
\<close>

record call_env =
  randomUUID :: string
  db_error :: "string option"

section \<open>The edit store\<close>

subsection \<open>updateEdit\<close>

text \<open>
  \<open>updateEdit(editId, content)\<close>: the first entry with the id decides the branch;
  the handler returns at once when there is none. An original entry is inserted into the
  table under a fresh id and, when the insert succeeded, every entry with the id is
  rewritten in memory; otherwise the content is updated in the table and then in memory.
  An error of the table is thrown before the in-memory update and caught at the end,
  where it is written to the console.
\<close>

definition updateEdit :: "call_env \<Rightarrow> editor \<Rightarrow> string \<Rightarrow> string \<Rightarrow> editor" where
  "updateEdit env s editId new_content =
    (case find (\<lambda>e. edit_id e = editId) (textEdits s) of
       None \<Rightarrow> s
     | Some edit \<Rightarrow>
         if truthy (isOriginal edit) then
           let newEdit = \<lparr>row_id = randomUUID env, report_id = reportId s,
                 row_page_number = page_number edit, edit_type = ''text'',
                 row_content = new_content, row_position_x = position_x edit,
                 row_position_y = position_y edit, row_font_size = font_size edit,
                 row_color = color edit\<rparr>;
               s1 = s\<lparr>db_calls := db_calls s @ [DbInsert newEdit]\<rparr>
           in (case db_error env of
                 Some err \<Rightarrow> s1\<lparr>console := console s1 @ [(''Error updating edit:'', err)]\<rparr>
               | None \<Rightarrow>
                   s1\<lparr>textEdits :=
                     map (\<lambda>e. if edit_id e = editId
                               then e\<lparr>content := new_content, isOriginal := Some False,
                                      edit_id := row_id newEdit\<rparr>
                               else e) (textEdits s)\<rparr>)
         else
           let s1 = s\<lparr>db_calls := db_calls s @ [DbUpdateContent editId new_content]\<rparr>
           in (case db_error env of
                 Some err \<Rightarrow> s1\<lparr>console := console s1 @ [(''Error updating edit:'', err)]\<rparr>
               | None \<Rightarrow>
                   s1\<lparr>textEdits :=
                     map (\<lambda>e. if edit_id e = editId then e\<lparr>content := new_content\<rparr> else e)
                       (textEdits s)\<rparr>))"

subsection \<open>deleteEdit\<close>

text \<open>
  \<open>deleteEdit(editId)\<close>: a row is deleted from the table only when the first entry
  with the id is not original; then every entry with the id leaves the list and a toast
  says which of the two happened.
\<close>

definition deleteEdit :: "call_env \<Rightarrow> editor \<Rightarrow> string \<Rightarrow> editor" where
  "deleteEdit env s editId =
    (case find (\<lambda>e. edit_id e = editId) (textEdits s) of
       None \<Rightarrow> s
     | Some edit \<Rightarrow>
         (case (if \<not> truthy (isOriginal edit)
                then (s\<lparr>db_calls := db_calls s @ [DbDelete editId]\<rparr>, db_error env)
                else (s, None)) of
            (s1, Some err) \<Rightarrow>
              s1\<lparr>console := console s1 @ [(''Error deleting edit:'', err)]\<rparr>
          | (s1, None) \<Rightarrow>
              s1\<lparr>textEdits := filter (\<lambda>e. edit_id e \<noteq> editId) (textEdits s),
                 toasts := toasts s1 @
                   [\<lparr>title = ''Deleted'',
                     description = (if truthy (isOriginal edit)
                                    then ''Original text hidden'' else ''Edit removed''),
                     variant = None\<rparr>]\<rparr>))"

subsection \<open>Zoom\<close>

definition zoomIn :: "editor \<Rightarrow> editor" where
  "zoomIn s = s\<lparr>scale := min (scale s + 0.25) 3\<rparr>"

definition zoomOut :: "editor \<Rightarrow> editor" where
  "zoomOut s = s\<lparr>scale := max (scale s - 0.25) 0.5\<rparr>"

text \<open>
  The two buttons of the toolbar, and the state of a freshly mounted component (the
  arguments of the \<open>useState\<close> calls).
\<close>

datatype zoom_click = ClickZoomIn | ClickZoomOut

fun click :: "editor \<Rightarrow> zoom_click \<Rightarrow> editor" where
  "click s ClickZoomIn = zoomIn s"
| "click s ClickZoomOut = zoomOut s"

definition initial_editor :: "string \<Rightarrow> editor" where
  "initial_editor rid =
    \<lparr>reportId = rid, scale = 1.5, textEdits = [], imageEdits = [],
     originalMasks = Map.empty, db_calls = [], toasts = [], console = [], downloads = []\<rparr>"

section \<open>Coordinates\<close>

text \<open>
  The two places where coordinates change space. Extraction (lines 114 to 116) keeps the
  x of the text matrix and subtracts its y from the height of the viewport; the export
  (lines 563 and 566 for text, 591 and 594 for images) keeps the stored x and subtracts
  the stored y and the size of the entry (font size, or image height) from the height of
  the page. \<open>page.getViewport({ scale })\<close> of pdf.js gives an unrotated page the
  height of the page times the scale.
\<close>

definition viewport_height :: "real \<Rightarrow> real \<Rightarrow> real" where
  "viewport_height pageHeight sc = pageHeight * sc"

definition toCanvas :: "real \<Rightarrow> real \<Rightarrow> real \<Rightarrow> real \<times> real" where
  "toCanvas viewportHeight x yPdf = (x, viewportHeight - yPdf)"

definition toPdf :: "real \<Rightarrow> real \<times> real \<Rightarrow> real \<Rightarrow> real \<times> real" where
  "toPdf pageHeight pos sz = (fst pos, pageHeight - snd pos - sz)"

section \<open>Text extraction\<close>

text \<open>
  An item of \<open>textContent.items\<close>: \<open>str\<close> is missing on marked-content items,
  \<open>transform\<close> is the matrix \<open>[a, b, c, d, e, f]\<close>. A page of the loaded
  document has a height and either its text items or the error \<open>getTextContent\<close>
  rejects with.
\<close>

record text_item =
  str :: "string option"
  transform :: "real \<times> real \<times> real \<times> real \<times> real \<times> real"
  item_width :: real
  item_height :: real

record pdf_page =
  page_height :: real
  text_content :: "string + text_item list"

text \<open>
  \<open>String.prototype.trim\<close> on the ASCII white space characters (space, tab, line
  feed, vertical tab, form feed, carriage return); the white space beyond ASCII that
  JavaScript also strips is left out.
\<close>

definition is_space :: "char \<Rightarrow> bool" where
  "is_space c = (c \<in> set [CHR '' '', CHR 0x09, CHR 0x0A, CHR 0x0B, CHR 0x0C, CHR 0x0D])"

definition trim :: "string \<Rightarrow> string" where
  "trim s = rev (dropWhile is_space (rev (dropWhile is_space s)))"

text \<open>
  The body of the \<open>forEach\<close> over the items: \<open>None\<close> when the item is skipped,
  otherwise the original entry and its mask. \<open>num_str\<close> is the conversion of a
  number to a string that the template literal of the id applies; \<open>a || b\<close> on numbers
  is \<open>b\<close> when \<open>a\<close> is zero.
\<close>

definition extract_item ::
  "(real \<Rightarrow> string) \<Rightarrow> real \<Rightarrow> int \<Rightarrow> text_item \<Rightarrow> (TextEdit \<times> mask) option" where
  "extract_item num_str viewportHeight pageNum item =
    (case map_option trim (str item) of
       None \<Rightarrow> None
     | Some s \<Rightarrow>
         if s = [] then None
         else
           (case transform item of (t0, t1, t2, t3, t4, t5) \<Rightarrow>
             let (x, y) = toCanvas viewportHeight t4 t5;
                 a = \<bar>t0\<bar>;
                 fontSize = (if a \<noteq> 0 then a
                             else max (if item_height item \<noteq> 0 then item_height item else 0) 10);
                 w = (if item_width item \<noteq> 0 then item_width item
                      else real (length s) * fontSize * 0.6);
                 h = fontSize * 1.2
             in Some
               (\<lparr>edit_id = ''original-'' @ num_str (real_of_int pageNum) @ ''-'' @ num_str x
                             @ ''-'' @ num_str y,
                 page_number = pageNum, content = s, position_x = x, position_y = y,
                 font_size = fontSize, color = ''#000000'', isEditing = None,
                 isOriginal = Some True\<rparr>,
                \<lparr>mask_x = x, mask_y = y - h + fontSize * 0.2, mask_w = w, mask_h = h\<rparr>)))"

text \<open>The whole \<open>forEach\<close>: the entries and masks of the items that are not skipped.\<close>

definition extract_items ::
  "(real \<Rightarrow> string) \<Rightarrow> real \<Rightarrow> int \<Rightarrow> text_item list \<Rightarrow> (TextEdit \<times> mask) list" where
  "extract_items num_str viewportHeight pageNum items =
    List.map_filter (extract_item num_str viewportHeight pageNum) items"

text \<open>\<open>pdfDoc.getPage(pageNum)\<close> rejects unless the number is one of the pages.\<close>

definition getPage :: "pdf_page list \<Rightarrow> int \<Rightarrow> string + pdf_page" where
  "getPage pdfDoc pageNum =
    (if 1 \<le> pageNum \<and> pageNum \<le> int (length pdfDoc)
     then Inr (pdfDoc ! nat (pageNum - 1)) else Inl ''Invalid page request.'')"

text \<open>
  \<open>extractTextFromPage(pdfDoc, pageNum)\<close>: the masks of the page are stored, and the
  functional update of \<open>textEdits\<close> keeps the list as it is when it already holds an
  original entry of the page, and otherwise returns the entries that are not original
  followed by the entries just derived. Any rejection is caught and logged.
\<close>

definition extractTextFromPage ::
  "(real \<Rightarrow> string) \<Rightarrow> pdf_page list \<Rightarrow> editor \<Rightarrow> int \<Rightarrow> editor" where
  "extractTextFromPage num_str pdfDoc s pageNum =
    (case getPage pdfDoc pageNum of
       Inl err \<Rightarrow> s\<lparr>console := console s @ [(''Error extracting text:'', err)]\<rparr>
     | Inr page \<Rightarrow>
         (case text_content page of
            Inl err \<Rightarrow> s\<lparr>console := console s @ [(''Error extracting text:'', err)]\<rparr>
          | Inr items \<Rightarrow>
              let extracted = extract_items num_str
                    (viewport_height (page_height page) (scale s)) pageNum items;
                  originalTexts = map fst extracted;
                  masks = map snd extracted;
                  prevEdits = textEdits s;
                  userEdits = filter (\<lambda>edit. \<not> truthy (isOriginal edit)) prevEdits;
                  hasCurrentOriginals =
                    list_ex (\<lambda>e. truthy (isOriginal e) \<and> page_number e = pageNum) prevEdits
              in s\<lparr>originalMasks := (originalMasks s)(pageNum \<mapsto> masks),
                   textEdits := (if \<not> hasCurrentOriginals then userEdits @ originalTexts
                                 else prevEdits)\<rparr>))"

text \<open>
  JavaScript prints an integral number of moderate size in decimal, without a fraction.
  This conversion serves to evaluate the examples; the theorems about extraction hold
  for every conversion.
\<close>

function show_nat :: "nat \<Rightarrow> string" where
  "show_nat n =
    (if n < 10 then [''0123456789'' ! n] else show_nat (n div 10) @ [''0123456789'' ! (n mod 10)])"
  by pat_completeness auto
termination
  by (relation "measure (\<lambda>n. n)") auto

declare show_nat.simps [simp del]

definition integral_str :: "real \<Rightarrow> string" where
  "integral_str r = (if r < 0 then ''-'' else []) @ show_nat (nat \<lfloor>\<bar>r\<bar>\<rfloor>)"

section \<open>Export\<close>

text \<open>
  What the export receives from outside: the heights of the pages of the source document
  as \<open>PDFDocument.load\<close> returns them (or the error of the fetch or of the load), for
  every text entry the error that \<open>page.drawText\<close> throws for it if there is one
  (the standard font cannot encode every string), for every image URL the error of its
  fetch or of its embedding if there is one, and the error of \<open>pdfDoc.save\<close> or
  of the steps that offer the file if there is one.
\<close>

record export_env =
  loaded :: "string + real list"
  drawText_error :: "TextEdit \<Rightarrow> string option"
  embed_error :: "string \<Rightarrow> string option"
  save_error :: "string option"

text \<open>\<open>pages[i]\<close>, which is \<open>undefined\<close> outside the array.\<close>

definition page_at :: "real list \<Rightarrow> int \<Rightarrow> real option" where
  "page_at pages i = (if 0 \<le> i \<and> i < int (length pages) then Some (pages ! nat i) else None)"

text \<open>
  \<open>hexToRgb\<close>: an optional hash sign and exactly six hexadecimal digits of either
  case, each pair read as a number and divided by 255; black otherwise.
\<close>

definition hex_digit :: "char \<Rightarrow> nat option" where
  "hex_digit c =
    (let n = (of_char c :: nat) in
     if 48 \<le> n \<and> n \<le> 57 then Some (n - 48)
     else if 97 \<le> n \<and> n \<le> 102 then Some (n - 87)
     else if 65 \<le> n \<and> n \<le> 70 then Some (n - 55)
     else None)"

definition hexToRgb :: "string \<Rightarrow> real \<times> real \<times> real" where
  "hexToRgb hex =
    (case those (map hex_digit (if prefix ''#'' hex then drop 1 hex else hex)) of
       Some [r1, r0, g1, g0, b1, b0] \<Rightarrow>
         (real (16 * r1 + r0) / 255, real (16 * g1 + g0) / 255, real (16 * b1 + b0) / 255)
     | _ \<Rightarrow> (0, 0, 0))"

text \<open>
  The calls \<open>page.drawText\<close> and \<open>page.drawImage\<close> for an entry whose page
  exists and has the given height. An image is embedded as PNG when its URL contains
  \<open>.png\<close> or starts with \<open>data:image/png\<close>, as JPEG otherwise.
\<close>

definition drawText :: "real \<Rightarrow> TextEdit \<Rightarrow> draw_op" where
  "drawText pageHeight edit =
    (case toPdf pageHeight (position_x edit, position_y edit) (font_size edit) of
       (x, adjustedY) \<Rightarrow>
         DrawText (nat (page_number edit - 1)) (content edit) x adjustedY (font_size edit)
           (hexToRgb (color edit)))"

definition drawImage :: "real \<Rightarrow> ImageEdit \<Rightarrow> draw_op" where
  "drawImage pageHeight imgEdit =
    (case toPdf pageHeight (img_position_x imgEdit, img_position_y imgEdit) (height imgEdit) of
       (x, adjustedY) \<Rightarrow>
         if sublist ''.png'' (image_url imgEdit) \<or> prefix ''data:image/png'' (image_url imgEdit)
         then DrawPng (nat (img_page_number imgEdit - 1)) (image_url imgEdit) x adjustedY
                (width imgEdit) (height imgEdit)
         else DrawJpg (nat (img_page_number imgEdit - 1)) (image_url imgEdit) x adjustedY
                (width imgEdit) (height imgEdit))"

text \<open>
  The loop over \<open>textEdits\<close>, with its two \<open>continue\<close> statements. The call
  of \<open>page.drawText\<close> has no \<open>try\<close> of its own: when it throws, the loop ends
  with that error, which goes to the outer \<open>catch\<close>.
\<close>

fun draw_texts :: "export_env \<Rightarrow> real list \<Rightarrow> TextEdit list \<Rightarrow> string + draw_op list" where
  "draw_texts env pages [] = Inr []"
| "draw_texts env pages (edit # rest) =
    (if truthy (isOriginal edit) then draw_texts env pages rest
     else
       (case page_at pages (page_number edit - 1) of
          None \<Rightarrow> draw_texts env pages rest
        | Some pageHeight \<Rightarrow>
            (case drawText_error env edit of
               Some err \<Rightarrow> Inl err
             | None \<Rightarrow>
                 (case draw_texts env pages rest of
                    Inl err \<Rightarrow> Inl err
                  | Inr ops \<Rightarrow> Inr (drawText pageHeight edit # ops)))))"

text \<open>
  The loop over \<open>imageEdits\<close>: the drawing operations and the messages that the
  inner \<open>catch\<close> wrote to the console, both in order.
\<close>

fun draw_images ::
  "export_env \<Rightarrow> real list \<Rightarrow> ImageEdit list \<Rightarrow> draw_op list \<times> (string \<times> string) list" where
  "draw_images env pages [] = ([], [])"
| "draw_images env pages (imgEdit # rest) =
    (if is_deleted imgEdit then draw_images env pages rest
     else
       (case page_at pages (img_page_number imgEdit - 1) of
          None \<Rightarrow> draw_images env pages rest
        | Some pageHeight \<Rightarrow>
            (case draw_images env pages rest of
               (ops, errs) \<Rightarrow>
                 (case embed_error env (image_url imgEdit) of
                    Some err \<Rightarrow> (ops, (''Failed to embed image:'', err) # errs)
                  | None \<Rightarrow> (drawImage pageHeight imgEdit # ops, errs)))))"

text \<open>
  \<open>downloadEditedPDF\<close>: an error of the load, of a \<open>page.drawText\<close> or of
  the save reaches the outer \<open>catch\<close>, which logs it and shows the destructive
  toast; otherwise the saved document is offered for download and the success toast is
  shown. The text loop runs before the image loop, so after a failing text entry no image
  is fetched.
\<close>

definition export_failed :: "editor \<Rightarrow> string \<Rightarrow> editor" where
  "export_failed s err =
    s\<lparr>console := console s @ [(''Error generating PDF:'', err)],
      toasts := toasts s @
        [\<lparr>title = ''Error'', description = ''Failed to generate PDF. Please try again.'',
          variant = Some ''destructive''\<rparr>]\<rparr>"

definition downloadEditedPDF :: "export_env \<Rightarrow> editor \<Rightarrow> editor" where
  "downloadEditedPDF env s =
    (let s0 = s\<lparr>toasts := toasts s @
                 [\<lparr>title = ''Generating PDF'',
                   description = ''Please wait while we create your edited PDF...'',
                   variant = None\<rparr>]\<rparr>
     in case loaded env of
          Inl err \<Rightarrow> export_failed s0 err
        | Inr pages \<Rightarrow>
            (case draw_texts env pages (textEdits s) of
               Inl err \<Rightarrow> export_failed s0 err
             | Inr text_ops \<Rightarrow>
                 (case draw_images env pages (imageEdits s) of
                    (image_ops, errs) \<Rightarrow>
                      let s1 = s0\<lparr>console := console s0 @ errs\<rparr>
                      in (case save_error env of
                            Some err \<Rightarrow> export_failed s1 err
                          | None \<Rightarrow>
                              s1\<lparr>downloads := downloads s1 @ [text_ops @ image_ops],
                                 toasts := toasts s1 @
                                   [\<lparr>title = ''Success'',
                                     description = ''Your edited PDF has been downloaded'',
                                     variant = None\<rparr>]\<rparr>))))"

section \<open>Example data\<close>

text \<open>
  A document of two pages, each 800 units high, with one text item each; the entry that
  extraction derives from the first item at scale 1; a store holding that entry; an
  entry and an image (a PNG of one pixel) as the user creates them; and answers of the
  outside world.
\<close>

definition example_item1 :: text_item where
  "example_item1 =
    \<lparr>str = Some ''Total: $42'', transform = (12, 0, 0, 12, 50, 700), item_width = 60,
     item_height = 12\<rparr>"

definition example_item2 :: text_item where
  "example_item2 =
    \<lparr>str = Some '' Appendix '', transform = (10, 0, 0, 10, 72, 500), item_width = 0,
     item_height = 10\<rparr>"

definition example_doc :: "pdf_page list" where
  "example_doc =
    [\<lparr>page_height = 800, text_content = Inr [example_item1]\<rparr>,
     \<lparr>page_height = 800, text_content = Inr [example_item2]\<rparr>]"

definition example_original :: TextEdit where
  "example_original =
    \<lparr>edit_id = ''original-1-50-100'', page_number = 1, content = ''Total: $42'',
     position_x = 50, position_y = 100, font_size = 12, color = ''#000000'',
     isEditing = None, isOriginal = Some True\<rparr>"

definition example_user :: TextEdit where
  "example_user =
    \<lparr>edit_id = ''0b9d1c1e-5a53-4a63-9d0a-2f5c8a6b7e10'', page_number = 1, content = ''Note'',
     position_x = 50, position_y = 100, font_size = 12, color = ''#ff0000'',
     isEditing = Some False, isOriginal = None\<rparr>"

definition example_image :: ImageEdit where
  "example_image =
    \<lparr>img_id = ''7c1f0c52-93a1-4f0e-8a55-0d6c1b2e3f40'', img_page_number = 1,
     image_url = ''data:image/png;base64,iVBORw0KGgoAAAANSUhEUgAAAAEAAAABCAYAAAAfFcSJAAAADUlEQVR42mNkYPhfDwAChwGA60e6kgAAAABJRU5ErkJggg=='',
     img_position_x = 100, img_position_y = 200, width = 200, height = 200,
     is_deleted = False\<rparr>"

definition example_store :: "TextEdit list \<Rightarrow> ImageEdit list \<Rightarrow> editor" where
  "example_store texts images =
    \<lparr>reportId = ''report-1'', scale = 1, textEdits = texts, imageEdits = images,
     originalMasks = Map.empty, db_calls = [], toasts = [], console = [], downloads = []\<rparr>"

definition example_env :: "string \<Rightarrow> call_env" where
  "example_env uuid = \<lparr>randomUUID = uuid, db_error = None\<rparr>"

definition example_failing_env :: "string \<Rightarrow> call_env" where
  "example_failing_env uuid = \<lparr>randomUUID = uuid, db_error = Some ''permission denied''\<rparr>"

definition example_export_env :: "string option \<Rightarrow> export_env" where
  "example_export_env err =
    \<lparr>loaded = Inr [800, 800], drawText_error = (\<lambda>edit. None), embed_error = (\<lambda>url. err),
     save_error = None\<rparr>"

definition example_export_env_for :: "string \<Rightarrow> export_env" where
  "example_export_env_for url =
    \<lparr>loaded = Inr [800, 800], drawText_error = (\<lambda>edit. None),
     embed_error = (\<lambda>u. if u = url then Some ''Failed to fetch'' else None),
     save_error = None\<rparr>"

text \<open>
  A text entry whose content is the right arrow U+2192 in UTF-8, which the encoding of
  the standard font does not have, and an outside world in which \<open>page.drawText\<close>
  throws for it.
\<close>

definition example_arrow :: TextEdit where
  "example_arrow = example_user\<lparr>content := [CHR 0xE2, CHR 0x86, CHR 0x92]\<rparr>"

definition example_export_env_winansi :: export_env where
  "example_export_env_winansi =
    \<lparr>loaded = Inr [800, 800],
     drawText_error = (\<lambda>edit. if content edit = [CHR 0xE2, CHR 0x86, CHR 0x92]
                                then Some ''WinAnsi cannot encode'' else None),
     embed_error = (\<lambda>url. None), save_error = None\<rparr>"

section \<open>Properties of the edit store\<close>

subsection \<open>Rewriting the entries that carry one id\<close>

lemma find_absent: "k \<notin> edit_id ` set xs \<Longrightarrow> find (\<lambda>e. edit_id e = k) xs = None"
  by (induction xs) auto









subsection \<open>The branches of updateEdit\<close>





subsection \<open>Promotion\<close>







subsection \<open>Removal\<close>

text \<open>
  Claim C8, as stated, fails for an entry that is not original when the table answers
  the delete with an error: the delete was issued, but the entry stays in the list, no
  toast is shown and the error goes to the console.
\<close>

theorem deleteEdit_error_counterexample:
  "\<not> truthy (isOriginal example_user)
   \<and> textEdits (deleteEdit (example_failing_env ''u'')
        (example_store [example_original, example_user] [])
        ''0b9d1c1e-5a53-4a63-9d0a-2f5c8a6b7e10'') = [example_original, example_user]
   \<and> db_calls (deleteEdit (example_failing_env ''u'')
        (example_store [example_original, example_user] [])
        ''0b9d1c1e-5a53-4a63-9d0a-2f5c8a6b7e10'')
       = [DbDelete ''0b9d1c1e-5a53-4a63-9d0a-2f5c8a6b7e10'']
   \<and> toasts (deleteEdit (example_failing_env ''u'')
        (example_store [example_original, example_user] [])
        ''0b9d1c1e-5a53-4a63-9d0a-2f5c8a6b7e10'') = []
   \<and> console (deleteEdit (example_failing_env ''u'')
        (example_store [example_original, example_user] [])
        ''0b9d1c1e-5a53-4a63-9d0a-2f5c8a6b7e10'')
       = [(''Error deleting edit:'', ''permission denied'')]"
  by (simp add: deleteEdit_def example_failing_env_def example_store_def example_original_def
      example_user_def truthy_def)

text \<open>
  Claim C8, amended. Let the handler find an entry under the id. If the entry is
  original, no call goes to the table, the entries under the id leave the list and the
  toast says that the original text was hidden. If it is not original, a delete keyed by
  the id goes to the table; when the table answers without error, the entries under the
  id leave the list and the toast says that the edit was removed; when it answers with
  an error, the list and the toasts are left as they were and the error is written to the
  console.
\<close>

theorem deleteEdit_by_provenance:
  assumes "find (\<lambda>x. edit_id x = editId) (textEdits s) = Some e"
  shows "(truthy (isOriginal e) \<longrightarrow>
            db_calls (deleteEdit env s editId) = db_calls s
          \<and> textEdits (deleteEdit env s editId)
              = filter (\<lambda>x. edit_id x \<noteq> editId) (textEdits s)
          \<and> toasts (deleteEdit env s editId) = toasts s @
              [\<lparr>title = ''Deleted'', description = ''Original text hidden'', variant = None\<rparr>])
       \<and> (\<not> truthy (isOriginal e) \<longrightarrow>
            db_calls (deleteEdit env s editId) = db_calls s @ [DbDelete editId])
       \<and> (\<not> truthy (isOriginal e) \<and> db_error env = None \<longrightarrow>
            textEdits (deleteEdit env s editId)
              = filter (\<lambda>x. edit_id x \<noteq> editId) (textEdits s)
          \<and> toasts (deleteEdit env s editId) = toasts s @
              [\<lparr>title = ''Deleted'', description = ''Edit removed'', variant = None\<rparr>])
       \<and> (\<forall>err. \<not> truthy (isOriginal e) \<and> db_error env = Some err \<longrightarrow>
            textEdits (deleteEdit env s editId) = textEdits s
          \<and> toasts (deleteEdit env s editId) = toasts s
          \<and> console (deleteEdit env s editId)
              = console s @ [(''Error deleting edit:'', err)])"
  using assms by (auto simp: deleteEdit_def split: option.splits)

theorem deleteEdit_by_provenance_witness:
  "find (\<lambda>x. edit_id x = ''original-1-50-100'')
      (textEdits (example_store [example_original, example_user] [])) = Some example_original
   \<and> truthy (isOriginal example_original)
   \<and> db_calls (deleteEdit (example_env ''u'') (example_store [example_original, example_user] [])
        ''original-1-50-100'') = []
   \<and> textEdits (deleteEdit (example_env ''u'') (example_store [example_original, example_user] [])
        ''original-1-50-100'') = [example_user]
   \<and> toasts (deleteEdit (example_env ''u'') (example_store [example_original, example_user] [])
        ''original-1-50-100'')
       = [\<lparr>title = ''Deleted'', description = ''Original text hidden'', variant = None\<rparr>]
   \<and> find (\<lambda>x. edit_id x = ''0b9d1c1e-5a53-4a63-9d0a-2f5c8a6b7e10'')
      (textEdits (example_store [example_original, example_user] [])) = Some example_user
   \<and> \<not> truthy (isOriginal example_user)
   \<and> db_error (example_env ''u'') = None
   \<and> db_calls (deleteEdit (example_env ''u'') (example_store [example_original, example_user] [])
        ''0b9d1c1e-5a53-4a63-9d0a-2f5c8a6b7e10'')
       = [DbDelete ''0b9d1c1e-5a53-4a63-9d0a-2f5c8a6b7e10'']
   \<and> textEdits (deleteEdit (example_env ''u'') (example_store [example_original, example_user] [])
        ''0b9d1c1e-5a53-4a63-9d0a-2f5c8a6b7e10'') = [example_original]
   \<and> toasts (deleteEdit (example_env ''u'') (example_store [example_original, example_user] [])
        ''0b9d1c1e-5a53-4a63-9d0a-2f5c8a6b7e10'')
       = [\<lparr>title = ''Deleted'', description = ''Edit removed'', variant = None\<rparr>]
   \<and> db_error (example_failing_env ''u'') = Some ''permission denied''
   \<and> textEdits (deleteEdit (example_failing_env ''u'')
        (example_store [example_original, example_user] [])
        ''0b9d1c1e-5a53-4a63-9d0a-2f5c8a6b7e10'')
       = textEdits (example_store [example_original, example_user] [])
   \<and> console (deleteEdit (example_failing_env ''u'')
        (example_store [example_original, example_user] [])
        ''0b9d1c1e-5a53-4a63-9d0a-2f5c8a6b7e10'')
       = [(''Error deleting edit:'', ''permission denied'')]"
proof -
  let ?s = "example_store [example_original, example_user] []"
  have h1: "find (\<lambda>x. edit_id x = ''original-1-50-100'') (textEdits ?s) = Some example_original"
    by (simp add: example_store_def example_original_def example_user_def)
  have h2: "truthy (isOriginal example_original)"
    by (simp add: example_original_def truthy_def)
  have h3: "find (\<lambda>x. edit_id x = ''0b9d1c1e-5a53-4a63-9d0a-2f5c8a6b7e10'') (textEdits ?s)
      = Some example_user"
    by (simp add: example_store_def example_original_def example_user_def)
  have h4: "\<not> truthy (isOriginal example_user)"
    by (simp add: example_user_def truthy_def)
  have h5: "db_error (example_env ''u'') = None"
    and h6: "db_error (example_failing_env ''u'') = Some ''permission denied''"
    by (simp_all add: example_env_def example_failing_env_def)
  have ids: "edit_id example_original = ''original-1-50-100''"
    "edit_id example_user = ''0b9d1c1e-5a53-4a63-9d0a-2f5c8a6b7e10''"
    by (simp_all add: example_original_def example_user_def)
  have st: "textEdits ?s = [example_original, example_user]" "db_calls ?s = []" "toasts ?s = []"
    "console ?s = []"
    by (simp_all add: example_store_def)
  show ?thesis
    using h1 h2 h3 h4 h5 h6
      deleteEdit_by_provenance [OF h1, of "example_env ''u''"]
      deleteEdit_by_provenance [OF h3, of "example_env ''u''"]
      deleteEdit_by_provenance [OF h3, of "example_failing_env ''u''"]
    by (simp add: st ids)
qed

subsection \<open>Absent ids\<close>

text \<open>
  Claim C9. When no entry of the list carries the id, the content update and the removal
  return the state as it is: the lists, the calls to the table, the toasts and the
  console are all unchanged.
\<close>

theorem absent_id_noop:
  "editId \<notin> edit_id ` set (textEdits s) \<Longrightarrow>
     updateEdit env s editId c = s \<and> deleteEdit env' s editId = s"
  by (simp add: updateEdit_def deleteEdit_def find_absent)

theorem absent_id_noop_witness:
  "''original-1-50-999'' \<notin> edit_id ` set (textEdits (example_store [example_original, example_user] []))
   \<and> updateEdit (example_env ''u'') (example_store [example_original, example_user] [])
         ''original-1-50-999'' ''Total: $99''
       = example_store [example_original, example_user] []
   \<and> deleteEdit (example_env ''u'') (example_store [example_original, example_user] [])
         ''original-1-50-999''
       = example_store [example_original, example_user] []"
proof -
  have h: "''original-1-50-999''
      \<notin> edit_id ` set (textEdits (example_store [example_original, example_user] []))"
    by (simp add: example_store_def example_original_def example_user_def)
  show ?thesis
    using h absent_id_noop [OF h, of "example_env ''u''" "''Total: $99''" "example_env ''u''"]
    by simp
qed

subsection \<open>The render scale\<close>

lemma click_in_range:
  "0.5 \<le> scale s \<Longrightarrow> scale s \<le> 3 \<Longrightarrow> 0.5 \<le> scale (click s z) \<and> scale (click s z) \<le> 3"
  by (cases z) (simp_all add: zoomIn_def zoomOut_def)

lemma clicks_in_range:
  "0.5 \<le> scale s \<Longrightarrow> scale s \<le> 3 \<Longrightarrow>
   0.5 \<le> scale (foldl click s zs) \<and> scale (foldl click s zs) \<le> 3"
proof (induction zs arbitrary: s)
  case Nil
  then show ?case by simp
next
  case (Cons z zs)
  show ?case
    using Cons.IH [of "click s z"] click_in_range [OF Cons.prems, of z] by simp
qed

text \<open>
  Every scale that the buttons can reach is a multiple of a quarter; such numbers and
  their sums with a quarter are exact in binary floating point, so the reals above
  compute what the doubles of the code compute.
\<close>

lemma click_quarter:
  assumes "\<exists>k::int. scale s = of_int k / 4"
  shows "\<exists>k::int. scale (click s z) = of_int k / 4"
proof -
  from assms obtain k :: int where k: "scale s = of_int k / 4" by blast
  have up: "scale s + 0.25 = of_int (k + 1) / 4" and down: "scale s - 0.25 = of_int (k - 1) / 4"
    using k by simp_all
  have three: "(3::real) = of_int 12 / 4" and half: "(0.5::real) = of_int 2 / 4" by simp_all
  show ?thesis
  proof (cases z)
    case ClickZoomIn
    have "scale (click s z) = of_int (k + 1) / 4 \<or> scale (click s z) = of_int 12 / 4"
      using ClickZoomIn up three by (simp add: zoomIn_def min_def)
    then show ?thesis by blast
  next
    case ClickZoomOut
    have "scale (click s z) = of_int (k - 1) / 4 \<or> scale (click s z) = of_int 2 / 4"
      using ClickZoomOut down half by (simp add: zoomOut_def max_def)
    then show ?thesis by blast
  qed
qed

lemma clicks_quarter:
  "\<exists>k::int. scale s = of_int k / 4 \<Longrightarrow> \<exists>k::int. scale (foldl click s zs) = of_int k / 4"
proof (induction zs arbitrary: s)
  case Nil
  then show ?case by simp
next
  case (Cons z zs)
  show ?case using Cons.IH [OF click_quarter [OF Cons.prems, of z]] by simp
qed

lemma reachable_scale_quarter: "\<exists>k::int. scale (foldl click (initial_editor rid) zs) = of_int k / 4"
proof (rule clicks_quarter)
  have "scale (initial_editor rid) = of_int 6 / 4" by (simp add: initial_editor_def)
  then show "\<exists>k::int. scale (initial_editor rid) = of_int k / 4" by blast
qed

text \<open>
  Claim C10. Starting from the state of a freshly mounted component, whose scale is 1.5,
  every sequence of clicks on the two zoom buttons leaves the scale between 0.5 and 3.
  A click on zoom-in yields the smaller of the scale plus 0.25 and 3, a click on zoom-out
  the larger of the scale minus 0.25 and 0.5.
\<close>

theorem zoom_scale_in_range:
  "scale (initial_editor rid) = 1.5
   \<and> scale (zoomIn s) = min (scale s + 0.25) 3
   \<and> scale (zoomOut s) = max (scale s - 0.25) 0.5
   \<and> 0.5 \<le> scale (foldl click (initial_editor rid) zs)
   \<and> scale (foldl click (initial_editor rid) zs) \<le> 3"
proof -
  have "0.5 \<le> scale (foldl click (initial_editor rid) zs)
      \<and> scale (foldl click (initial_editor rid) zs) \<le> 3"
    by (rule clicks_in_range) (simp_all add: initial_editor_def)
  then show ?thesis by (simp add: initial_editor_def zoomIn_def zoomOut_def)
qed

section \<open>Properties of extraction\<close>

lemma extract_item_original:
  "extract_item num_str vh p item = Some (t, m) \<Longrightarrow> truthy (isOriginal t) \<and> page_number t = p"
  by (auto simp: extract_item_def truthy_def toCanvas_def Let_def
      split: option.splits if_splits prod.splits)

lemma extracted_originals:
  "t \<in> set (map fst (extract_items num_str vh p items)) \<Longrightarrow>
     truthy (isOriginal t) \<and> page_number t = p"
  by (auto simp: extract_items_def List.map_filter_def dest: extract_item_original)

lemma extract_scale: "scale (extractTextFromPage num_str pdfDoc s p) = scale s"
  by (simp add: extractTextFromPage_def Let_def split: sum.splits)

lemma extract_success:
  assumes "getPage pdfDoc p = Inr page" "text_content page = Inr items"
  shows "textEdits (extractTextFromPage num_str pdfDoc s p) =
     (if list_ex (\<lambda>e. truthy (isOriginal e) \<and> page_number e = p) (textEdits s)
      then textEdits s
      else filter (\<lambda>e. \<not> truthy (isOriginal e)) (textEdits s) @
           map fst (extract_items num_str (viewport_height (page_height page) (scale s)) p items))"
  using assms by (simp add: extractTextFromPage_def Let_def)

text \<open>The functional update of the list, applied to its own result, changes nothing.\<close>

lemma merge_again:
  assumes fresh: "\<And>t. t \<in> set fresh \<Longrightarrow> truthy (isOriginal t) \<and> page_number t = p"
  defines "merge \<equiv> \<lambda>prev. if list_ex (\<lambda>e. truthy (isOriginal e) \<and> page_number e = p) prev
      then prev else filter (\<lambda>e. \<not> truthy (isOriginal e)) prev @ fresh"
  shows "merge (merge prev) = merge prev"
proof (cases "list_ex (\<lambda>e. truthy (isOriginal e) \<and> page_number e = p) prev")
  case True
  then show ?thesis by (simp add: merge_def)
next
  case False
  show ?thesis
  proof (cases fresh)
    case Nil
    then show ?thesis using False by (auto simp: merge_def list_ex_iff)
  next
    case (Cons t ts)
    then have "list_ex (\<lambda>e. truthy (isOriginal e) \<and> page_number e = p)
        (filter (\<lambda>e. \<not> truthy (isOriginal e)) prev @ fresh)"
      using fresh [of t] by (simp add: list_ex_iff)
    then show ?thesis using False by (simp add: merge_def)
  qed
qed

lemma extract_keeps_users:
  "filter (\<lambda>e. \<not> truthy (isOriginal e)) (textEdits (extractTextFromPage num_str pdfDoc s p))
     = filter (\<lambda>e. \<not> truthy (isOriginal e)) (textEdits s)"
proof (cases "getPage pdfDoc p")
  case (Inl err)
  then show ?thesis by (simp add: extractTextFromPage_def)
next
  case (Inr page)
  show ?thesis
  proof (cases "text_content page")
    case (Inl err)
    then show ?thesis using Inr by (simp add: extractTextFromPage_def)
  next
    case items: (Inr items)
    have "\<forall>t \<in> set (map fst (extract_items num_str
        (viewport_height (page_height page) (scale s)) p items)). truthy (isOriginal t)"
      using extracted_originals by blast
    then have "filter (\<lambda>e. \<not> truthy (isOriginal e))
        (map fst (extract_items num_str (viewport_height (page_height page) (scale s)) p items))
        = []"
      unfolding filter_empty_conv by simp
    then show ?thesis unfolding extract_success [OF Inr items] by simp
  qed
qed

text \<open>
  The scenario of the specification: the item \<open>Total: $42\<close> with the matrix
  \<open>[12, 0, 0, 12, 50, 700]\<close> on a page 800 units high gives, at scale 1, one entry
  with font size 12 at y = 100, and a mask over it.
\<close>

lemma example_extraction:
  "extract_items integral_str (viewport_height 800 1) 1 [example_item1]
     = [(example_original, \<lparr>mask_x = 50, mask_y = 88, mask_w = 60, mask_h = 14.4\<rparr>)]"
  by (simp add: extract_items_def List.map_filter_simps extract_item_def example_item1_def
      example_original_def trim_def is_space_def viewport_height_def toCanvas_def
      integral_str_def show_nat.simps)

text \<open>
  Claim C3, as stated, fails in two ways. With an original entry of page 1 in the store,
  extracting page 2 returns only the entry derived from page 2: the original entry of the
  other page is gone. And after a zoom step, extracting page 1 again leaves the entry of
  page 1 at y = 100 in the store, although the entry derived in this pass lies at
  y = 300: the original entries of the page are kept, not replaced.
\<close>

theorem extract_replaces_counterexample:
  "example_original \<in> set (textEdits (example_store [example_original] []))
   \<and> textEdits (extractTextFromPage integral_str example_doc
        (example_store [example_original] []) 2)
       = [\<lparr>edit_id = ''original-2-72-300'', page_number = 2, content = ''Appendix'',
           position_x = 72, position_y = 300, font_size = 10, color = ''#000000'',
           isEditing = None, isOriginal = Some True\<rparr>]
   \<and> textEdits (extractTextFromPage integral_str example_doc
        (zoomIn (example_store [example_original] [])) 1) = [example_original]
   \<and> map fst (extract_items integral_str
        (viewport_height 800 (scale (zoomIn (example_store [example_original] [])))) 1
        [example_item1])
       = [\<lparr>edit_id = ''original-1-50-300'', page_number = 1, content = ''Total: $42'',
           position_x = 50, position_y = 300, font_size = 12, color = ''#000000'',
           isEditing = None, isOriginal = Some True\<rparr>]"
  by (simp add: extractTextFromPage_def example_doc_def example_store_def example_original_def
      example_item1_def example_item2_def getPage_def zoomIn_def
      extract_items_def List.map_filter_simps extract_item_def
      trim_def is_space_def viewport_height_def toCanvas_def
      integral_str_def show_nat.simps truthy_def)

text \<open>
  Claim C3, amended. When the page and its text content load, extraction leaves the
  entries that are not original as they are, whatever their page. If the store holds no
  original entry of the page, the result is these entries followed by the entries derived
  in this pass (so the original entries of other pages are dropped); if it holds one,
  the list is left unchanged.
\<close>

theorem extract_merge:
  assumes "getPage pdfDoc pageNum = Inr page" "text_content page = Inr items"
  shows "filter (\<lambda>e. \<not> truthy (isOriginal e))
            (textEdits (extractTextFromPage num_str pdfDoc s pageNum))
           = filter (\<lambda>e. \<not> truthy (isOriginal e)) (textEdits s)
       \<and> (\<not> list_ex (\<lambda>e. truthy (isOriginal e) \<and> page_number e = pageNum) (textEdits s) \<longrightarrow>
            textEdits (extractTextFromPage num_str pdfDoc s pageNum)
              = filter (\<lambda>e. \<not> truthy (isOriginal e)) (textEdits s)
                @ map fst (extract_items num_str (viewport_height (page_height page) (scale s))
                    pageNum items))
       \<and> (list_ex (\<lambda>e. truthy (isOriginal e) \<and> page_number e = pageNum) (textEdits s) \<longrightarrow>
            textEdits (extractTextFromPage num_str pdfDoc s pageNum) = textEdits s)"
  using extract_keeps_users [of num_str pdfDoc s pageNum]
    extract_success [OF assms, of num_str s]
  by simp

theorem extract_merge_witness:
  "getPage example_doc 2 = Inr \<lparr>page_height = 800, text_content = Inr [example_item2]\<rparr>
   \<and> \<not> list_ex (\<lambda>e. truthy (isOriginal e) \<and> page_number e = 2)
         (textEdits (example_store [example_user, example_original] []))
   \<and> textEdits (extractTextFromPage integral_str example_doc
        (example_store [example_user, example_original] []) 2)
       = [example_user,
          \<lparr>edit_id = ''original-2-72-300'', page_number = 2, content = ''Appendix'',
           position_x = 72, position_y = 300, font_size = 10, color = ''#000000'',
           isEditing = None, isOriginal = Some True\<rparr>]
   \<and> getPage example_doc 1 = Inr \<lparr>page_height = 800, text_content = Inr [example_item1]\<rparr>
   \<and> list_ex (\<lambda>e. truthy (isOriginal e) \<and> page_number e = 1)
         (textEdits (zoomIn (example_store [example_user, example_original] [])))
   \<and> textEdits (extractTextFromPage integral_str example_doc
        (zoomIn (example_store [example_user, example_original] [])) 1)
       = [example_user, example_original]"
proof -
  let ?s = "example_store [example_user, example_original] []"
  let ?p1 = "\<lparr>page_height = 800, text_content = Inr [example_item1]\<rparr>"
  let ?p2 = "\<lparr>page_height = 800, text_content = Inr [example_item2]\<rparr>"
  have g1: "getPage example_doc 1 = Inr ?p1" and g2: "getPage example_doc 2 = Inr ?p2"
    by (simp_all add: getPage_def example_doc_def)
  have t1: "text_content ?p1 = Inr [example_item1]" and t2: "text_content ?p2 = Inr [example_item2]"
    by simp_all
  have st: "textEdits ?s = [example_user, example_original]"
    "textEdits (zoomIn ?s) = [example_user, example_original]" "scale ?s = 1"
    by (simp_all add: example_store_def zoomIn_def)
  have flags: "\<not> truthy (isOriginal example_user)" "truthy (isOriginal example_original)"
    "page_number example_original = 1"
    by (simp_all add: example_user_def example_original_def truthy_def)
  have fresh: "map fst (extract_items integral_str (viewport_height 800 1) 2 [example_item2])
      = [\<lparr>edit_id = ''original-2-72-300'', page_number = 2, content = ''Appendix'',
           position_x = 72, position_y = 300, font_size = 10, color = ''#000000'',
           isEditing = None, isOriginal = Some True\<rparr>]"
    by (simp add: extract_items_def List.map_filter_simps extract_item_def example_item2_def
        trim_def is_space_def viewport_height_def toCanvas_def integral_str_def show_nat.simps)
  show ?thesis
    using g1 g2
      extract_merge [OF g2 t2, of integral_str ?s]
      extract_merge [OF g1 t1, of integral_str "zoomIn ?s"]
    by (simp add: st flags fresh)
qed

text \<open>
  Claim C5. Extracting a page a second time, from the same document and with nothing
  done in between (so at the same scale), returns the list of entries and the masks that
  the first extraction returned.
\<close>

theorem extract_twice:
  "textEdits (extractTextFromPage num_str pdfDoc
       (extractTextFromPage num_str pdfDoc s pageNum) pageNum)
     = textEdits (extractTextFromPage num_str pdfDoc s pageNum)
   \<and> originalMasks (extractTextFromPage num_str pdfDoc
       (extractTextFromPage num_str pdfDoc s pageNum) pageNum)
     = originalMasks (extractTextFromPage num_str pdfDoc s pageNum)"
proof (cases "getPage pdfDoc pageNum")
  case (Inl err)
  then show ?thesis by (simp add: extractTextFromPage_def)
next
  case (Inr page)
  show ?thesis
  proof (cases "text_content page")
    case (Inl err)
    then show ?thesis using Inr by (simp add: extractTextFromPage_def)
  next
    case items: (Inr items)
    let ?s1 = "extractTextFromPage num_str pdfDoc s pageNum"
    let ?fresh = "map fst (extract_items num_str
             (viewport_height (page_height page) (scale s)) pageNum items)"
    have fr: "\<And>t. t \<in> set ?fresh \<Longrightarrow> truthy (isOriginal t) \<and> page_number t = pageNum"
      by (rule extracted_originals)
    have sc: "scale ?s1 = scale s" by (rule extract_scale)
    have 1: "textEdits (extractTextFromPage num_str pdfDoc ?s1 pageNum) = textEdits ?s1"
      unfolding extract_success [OF Inr items, of num_str ?s1] sc
      unfolding extract_success [OF Inr items, of num_str s]
      using merge_again [of ?fresh pageNum "textEdits s", OF fr] by simp
    have 2: "originalMasks (extractTextFromPage num_str pdfDoc ?s1 pageNum) = originalMasks ?s1"
      using Inr items by (simp add: extractTextFromPage_def Let_def)
    show ?thesis using 1 2 by simp
  qed
qed

section \<open>Properties of the coordinate transforms\<close>

lemma roundtrip_general:
  "toPdf pageHeight (toCanvas (viewport_height pageHeight sc) x y) sz
     = (x, y + pageHeight * (1 - sc) - sz)"
  by (simp add: toPdf_def toCanvas_def viewport_height_def algebra_simps)

text \<open>
  Claim C4, as stated, fails. At scale 1 on a page 800 units high, the position
  (50, 700) of a text of size 12 comes back as (50, 688). The same is seen end to end:
  the item extracted from the example document, promoted by a content update that keeps
  its text, is drawn by the export at y = 688.
\<close>

theorem roundtrip_counterexample:
  "toPdf 800 (toCanvas (viewport_height 800 1) 50 700) 12 \<noteq> (50, 700)
   \<and> draw_texts (example_export_env None) [800, 800]
       (textEdits (updateEdit (example_env ''4d2a7c9e-1b7f-4e0a-9c3d-5e6f7a8b9c0d'')
          (extractTextFromPage integral_str example_doc (example_store [] []) 1)
          ''original-1-50-100'' ''Total: $42''))
     = Inr [DrawText 0 ''Total: $42'' 50 688 12 (0, 0, 0)]"
  by (simp add: toPdf_def drawText_def updateEdit_def page_at_def hexToRgb_def hex_digit_def
      extractTextFromPage_def example_doc_def example_store_def example_env_def
      example_export_env_def
      example_item1_def example_item2_def getPage_def
      extract_items_def List.map_filter_simps extract_item_def
      trim_def is_space_def viewport_height_def toCanvas_def
      integral_str_def show_nat.simps truthy_def)

text \<open>
  Claim C4, amended. The x coordinate comes back unchanged at every scale. At scale 1
  the y coordinate comes back lowered by the size of the entry (the font size of a text,
  the height of an image).
\<close>

theorem roundtrip_at_scale_one:
  "fst (toPdf pageHeight (toCanvas (viewport_height pageHeight sc) x y) sz) = x
   \<and> toPdf pageHeight (toCanvas (viewport_height pageHeight 1) x y) sz = (x, y - sz)"
  by (simp add: toPdf_def toCanvas_def viewport_height_def)

section \<open>Properties of the export\<close>

lemma draw_texts_filter:
  assumes "\<forall>e \<in> set ts. \<not> truthy (isOriginal e) \<and> 1 \<le> page_number e
             \<and> page_number e \<le> int (length pages) \<longrightarrow> drawText_error env e = None"
  shows "draw_texts env pages ts =
     Inr (map (\<lambda>e. drawText (pages ! nat (page_number e - 1)) e)
       (filter (\<lambda>e. \<not> truthy (isOriginal e) \<and> 1 \<le> page_number e
                  \<and> page_number e \<le> int (length pages)) ts))"
  using assms by (induction ts) (auto simp: page_at_def)

lemma draw_texts_throws:
  assumes "e \<in> set ts" "\<not> truthy (isOriginal e)" "1 \<le> page_number e"
    "page_number e \<le> int (length pages)" "drawText_error env e \<noteq> None"
  shows "isl (draw_texts env pages ts)"
  using assms by (induction ts) (auto simp: page_at_def split: option.splits sum.splits)

lemma draw_images_filter:
  "draw_images env pages imgs =
     (map (\<lambda>i. drawImage (pages ! nat (img_page_number i - 1)) i)
        (filter (\<lambda>i. \<not> is_deleted i \<and> 1 \<le> img_page_number i
                   \<and> img_page_number i \<le> int (length pages)
                   \<and> embed_error env (image_url i) = None) imgs),
      List.map_filter
        (\<lambda>i. map_option (Pair ''Failed to embed image:'') (embed_error env (image_url i)))
        (filter (\<lambda>i. \<not> is_deleted i \<and> 1 \<le> img_page_number i
                   \<and> img_page_number i \<le> int (length pages)) imgs))"
  by (induction imgs) (auto simp: page_at_def List.map_filter_simps split: option.splits)

lemma export_completes:
  assumes "loaded env = Inr pages" "draw_texts env pages (textEdits s) = Inr text_ops"
    "save_error env = None"
  shows "downloadEditedPDF env s =
    s\<lparr>toasts := toasts s @
        [\<lparr>title = ''Generating PDF'',
          description = ''Please wait while we create your edited PDF...'', variant = None\<rparr>,
         \<lparr>title = ''Success'', description = ''Your edited PDF has been downloaded'',
          variant = None\<rparr>],
      console := console s @ snd (draw_images env pages (imageEdits s)),
      downloads := downloads s @ [text_ops @ fst (draw_images env pages (imageEdits s))]\<rparr>"
  using assms by (simp add: downloadEditedPDF_def Let_def split: prod.splits)

text \<open>
  A text entry for which \<open>page.drawText\<close> throws ends the export: no document is
  offered and the error toast is shown.
\<close>

lemma export_text_failure_aborts:
  assumes "loaded env = Inr pages" "e \<in> set (textEdits s)" "\<not> truthy (isOriginal e)"
    "1 \<le> page_number e" "page_number e \<le> int (length pages)" "drawText_error env e \<noteq> None"
  shows "downloads (downloadEditedPDF env s) = downloads s
       \<and> toasts (downloadEditedPDF env s) = toasts s @
          [\<lparr>title = ''Generating PDF'',
            description = ''Please wait while we create your edited PDF...'', variant = None\<rparr>,
           \<lparr>title = ''Error'', description = ''Failed to generate PDF. Please try again.'',
            variant = Some ''destructive''\<rparr>]"
proof -
  from draw_texts_throws [OF assms(2-6)] obtain err
    where "draw_texts env pages (textEdits s) = Inl err"
    by (cases "draw_texts env pages (textEdits s)") auto
  then show ?thesis
    using assms(1) by (simp add: downloadEditedPDF_def Let_def export_failed_def)
qed

text \<open>
  Claim C6, as stated, fails: an image entry that is not deleted and lies on an existing
  page is not drawn when its bytes cannot be fetched. Here the export draws the text
  entry and the second image only, and offers that document. And when
  \<open>page.drawText\<close> throws for one text entry, no document is offered at all, so
  the other text entry, which is not original and lies on an existing page, is not drawn
  either.
\<close>

theorem export_exact_counterexample:
  "\<not> is_deleted (example_image\<lparr>image_url := ''https://x.test/a.jpg''\<rparr>)
   \<and> img_page_number (example_image\<lparr>image_url := ''https://x.test/a.jpg''\<rparr>) = 1
   \<and> loaded (example_export_env_for ''https://x.test/a.jpg'') = Inr [800, 800]
   \<and> downloads (downloadEditedPDF (example_export_env_for ''https://x.test/a.jpg'')
        (example_store [example_user]
           [example_image\<lparr>image_url := ''https://x.test/a.jpg''\<rparr>, example_image]))
     = [[DrawText 0 ''Note'' 50 688 12 (1, 0, 0),
         DrawPng 0 (image_url example_image) 100 400 200 200]]
   \<and> \<not> truthy (isOriginal example_user)
   \<and> page_number example_user = 1
   \<and> downloads (downloadEditedPDF example_export_env_winansi
        (example_store [example_user, example_arrow] [])) = []
   \<and> toasts (downloadEditedPDF example_export_env_winansi
        (example_store [example_user, example_arrow] []))
     = [\<lparr>title = ''Generating PDF'',
          description = ''Please wait while we create your edited PDF...'', variant = None\<rparr>,
        \<lparr>title = ''Error'', description = ''Failed to generate PDF. Please try again.'',
          variant = Some ''destructive''\<rparr>]"
  by (simp add: downloadEditedPDF_def example_export_env_for_def example_store_def
      example_user_def example_image_def page_at_def drawText_def drawImage_def toPdf_def
      truthy_def hexToRgb_def hex_digit_def example_export_env_winansi_def example_arrow_def
      export_failed_def)

text \<open>
  Claim C6, amended. Let the source document load, let \<open>page.drawText\<close> succeed for
  every text entry that is drawn, and let the save succeed. Then the document offered for
  download carries, in order, one \<open>drawText\<close> for each text entry that is not
  original and whose page number is between 1 and the number of pages, and one
  \<open>drawImage\<close> for each image entry that is not deleted, whose page number is in
  that range and whose bytes were fetched and embedded without error, and nothing else.
  The console receives one message for each image that is not deleted, lies on an
  existing page and failed, and nothing for the entries that are skipped for being
  original, deleted or on a page that does not exist; the toasts are the two of a
  successful export.
\<close>

theorem export_draws_exactly:
  assumes "loaded env = Inr pages" "save_error env = None"
    and "\<forall>e \<in> set (textEdits s). \<not> truthy (isOriginal e) \<and> 1 \<le> page_number e
             \<and> page_number e \<le> int (length pages) \<longrightarrow> drawText_error env e = None"
  shows "downloads (downloadEditedPDF env s) = downloads s @
          [map (\<lambda>e. drawText (pages ! nat (page_number e - 1)) e)
             (filter (\<lambda>e. \<not> truthy (isOriginal e) \<and> 1 \<le> page_number e
                        \<and> page_number e \<le> int (length pages)) (textEdits s))
           @ map (\<lambda>i. drawImage (pages ! nat (img_page_number i - 1)) i)
             (filter (\<lambda>i. \<not> is_deleted i \<and> 1 \<le> img_page_number i
                        \<and> img_page_number i \<le> int (length pages)
                        \<and> embed_error env (image_url i) = None) (imageEdits s))]
       \<and> console (downloadEditedPDF env s) = console s @
          List.map_filter
            (\<lambda>i. map_option (Pair ''Failed to embed image:'') (embed_error env (image_url i)))
            (filter (\<lambda>i. \<not> is_deleted i \<and> 1 \<le> img_page_number i
                       \<and> img_page_number i \<le> int (length pages)) (imageEdits s))
       \<and> toasts (downloadEditedPDF env s) = toasts s @
          [\<lparr>title = ''Generating PDF'',
            description = ''Please wait while we create your edited PDF...'', variant = None\<rparr>,
           \<lparr>title = ''Success'', description = ''Your edited PDF has been downloaded'',
            variant = None\<rparr>]"
  unfolding export_completes [OF assms(1) draw_texts_filter [OF assms(3)] assms(2)]
  by (simp add: draw_images_filter)

theorem export_draws_exactly_witness:
  "loaded (example_export_env_for ''https://x.test/b.jpg'') = Inr [800, 800]
   \<and> save_error (example_export_env_for ''https://x.test/b.jpg'') = None
   \<and> downloads (downloadEditedPDF (example_export_env_for ''https://x.test/b.jpg'')
        (example_store [example_original, example_user, example_user\<lparr>page_number := 3\<rparr>]
           [example_image, example_image\<lparr>is_deleted := True\<rparr>,
            example_image\<lparr>img_page_number := 0\<rparr>,
            example_image\<lparr>image_url := ''https://x.test/b.jpg''\<rparr>,
            example_image\<lparr>img_page_number := 2, image_url := ''https://x.test/a.jpg''\<rparr>]))
     = [[DrawText 0 ''Note'' 50 688 12 (1, 0, 0),
         DrawPng 0 (image_url example_image) 100 400 200 200,
         DrawJpg 1 ''https://x.test/a.jpg'' 100 400 200 200]]
   \<and> console (downloadEditedPDF (example_export_env_for ''https://x.test/b.jpg'')
        (example_store [example_original, example_user, example_user\<lparr>page_number := 3\<rparr>]
           [example_image, example_image\<lparr>is_deleted := True\<rparr>,
            example_image\<lparr>img_page_number := 0\<rparr>,
            example_image\<lparr>image_url := ''https://x.test/b.jpg''\<rparr>,
            example_image\<lparr>img_page_number := 2, image_url := ''https://x.test/a.jpg''\<rparr>]))
     = [(''Failed to embed image:'', ''Failed to fetch'')]"
proof -
  let ?env = "example_export_env_for ''https://x.test/b.jpg''"
  let ?s = "example_store [example_original, example_user, example_user\<lparr>page_number := 3\<rparr>]
           [example_image, example_image\<lparr>is_deleted := True\<rparr>,
            example_image\<lparr>img_page_number := 0\<rparr>,
            example_image\<lparr>image_url := ''https://x.test/b.jpg''\<rparr>,
            example_image\<lparr>img_page_number := 2, image_url := ''https://x.test/a.jpg''\<rparr>]"
  have h1: "loaded ?env = Inr [800, 800]" and h2: "save_error ?env = None"
    by (simp_all add: example_export_env_for_def)
  have h3: "\<forall>e \<in> set (textEdits ?s). \<not> truthy (isOriginal e) \<and> 1 \<le> page_number e
             \<and> page_number e \<le> int (length [800, 800 :: real])
             \<longrightarrow> drawText_error ?env e = None"
    by (simp add: example_export_env_for_def)
  show ?thesis
    using h1 h2 export_draws_exactly [OF h1 h2 h3]
    by (simp add: example_store_def example_user_def example_image_def example_original_def
        example_export_env_for_def drawText_def drawImage_def toPdf_def truthy_def
        hexToRgb_def hex_digit_def sublist_Cons_right List.map_filter_simps)
qed

text \<open>
  Claim C7, as stated, fails. With an image whose fetch fails, the export still offers a
  document for download, the one with the text entry and without the image, and shows
  the success toast; the failure is written to the console only.
\<close>

theorem export_image_failure_counterexample:
  "embed_error (example_export_env (Some ''Failed to fetch'')) (image_url example_image)
     = Some ''Failed to fetch''
   \<and> downloads (downloadEditedPDF (example_export_env (Some ''Failed to fetch''))
        (example_store [example_user] [example_image]))
     = [[DrawText 0 ''Note'' 50 688 12 (1, 0, 0)]]
   \<and> toasts (downloadEditedPDF (example_export_env (Some ''Failed to fetch''))
        (example_store [example_user] [example_image]))
     = [\<lparr>title = ''Generating PDF'',
          description = ''Please wait while we create your edited PDF...'', variant = None\<rparr>,
        \<lparr>title = ''Success'', description = ''Your edited PDF has been downloaded'',
          variant = None\<rparr>]
   \<and> console (downloadEditedPDF (example_export_env (Some ''Failed to fetch''))
        (example_store [example_user] [example_image]))
     = [(''Failed to embed image:'', ''Failed to fetch'')]"
  by (simp add: downloadEditedPDF_def example_export_env_def example_store_def
      example_user_def example_image_def page_at_def drawText_def toPdf_def truthy_def
      hexToRgb_def hex_digit_def)

text \<open>
  Claim C7, amended. Let an image entry that is not deleted and lies on an existing page
  fail to be fetched or embedded, and let the rest of the export succeed: the source
  document loads, the loop over the text entries ends without an error and the save
  succeeds. Then the failure is written to the console, the document offered for download
  carries the text entries and exactly those drawable images whose fetch and embedding
  succeeded, and the toasts are the two of a successful export: no error is shown to the
  user.
\<close>

theorem export_skips_failed_images:
  assumes "loaded env = Inr pages" "draw_texts env pages (textEdits s) = Inr text_ops"
    "save_error env = None"
    and "img \<in> set (imageEdits s)" "\<not> is_deleted img" "1 \<le> img_page_number img"
    "img_page_number img \<le> int (length pages)" "embed_error env (image_url img) = Some err"
  shows "(''Failed to embed image:'', err) \<in> set (console (downloadEditedPDF env s))
       \<and> downloads (downloadEditedPDF env s) = downloads s @
          [text_ops
           @ map (\<lambda>i. drawImage (pages ! nat (img_page_number i - 1)) i)
               (filter (\<lambda>i. \<not> is_deleted i \<and> 1 \<le> img_page_number i
                          \<and> img_page_number i \<le> int (length pages)
                          \<and> embed_error env (image_url i) = None) (imageEdits s))]
       \<and> toasts (downloadEditedPDF env s) = toasts s @
          [\<lparr>title = ''Generating PDF'',
            description = ''Please wait while we create your edited PDF...'', variant = None\<rparr>,
           \<lparr>title = ''Success'', description = ''Your edited PDF has been downloaded'',
            variant = None\<rparr>]"
proof -
  let ?drawable = "\<lambda>i. \<not> is_deleted i \<and> 1 \<le> img_page_number i
      \<and> img_page_number i \<le> int (length pages)"
  let ?msg = "\<lambda>i. map_option (Pair ''Failed to embed image:'') (embed_error env (image_url i))"
  have "img \<in> set (filter ?drawable (imageEdits s))" using assms(4-7) by simp
  moreover have "?msg img = Some (''Failed to embed image:'', err)" using assms(8) by simp
  ultimately have "(''Failed to embed image:'', err)
      \<in> set (List.map_filter ?msg (filter ?drawable (imageEdits s)))"
    unfolding List.map_filter_def by force
  then show ?thesis
    unfolding export_completes [OF assms(1-3)] by (simp add: draw_images_filter)
qed

theorem export_skips_failed_images_witness:
  "loaded (example_export_env_for ''https://x.test/b.png'') = Inr [800, 800]
   \<and> draw_texts (example_export_env_for ''https://x.test/b.png'') [800, 800]
        (textEdits (example_store [example_user]
           [example_image, example_image\<lparr>img_page_number := 2,
              image_url := ''https://x.test/b.png''\<rparr>]))
       = Inr [DrawText 0 ''Note'' 50 688 12 (1, 0, 0)]
   \<and> save_error (example_export_env_for ''https://x.test/b.png'') = None
   \<and> embed_error (example_export_env_for ''https://x.test/b.png'') ''https://x.test/b.png''
       = Some ''Failed to fetch''
   \<and> console (downloadEditedPDF (example_export_env_for ''https://x.test/b.png'')
        (example_store [example_user]
           [example_image, example_image\<lparr>img_page_number := 2,
              image_url := ''https://x.test/b.png''\<rparr>]))
     = [(''Failed to embed image:'', ''Failed to fetch'')]
   \<and> downloads (downloadEditedPDF (example_export_env_for ''https://x.test/b.png'')
        (example_store [example_user]
           [example_image, example_image\<lparr>img_page_number := 2,
              image_url := ''https://x.test/b.png''\<rparr>]))
     = [[DrawText 0 ''Note'' 50 688 12 (1, 0, 0),
         DrawPng 0 (image_url example_image) 100 400 200 200]]
   \<and> toasts (downloadEditedPDF (example_export_env_for ''https://x.test/b.png'')
        (example_store [example_user]
           [example_image, example_image\<lparr>img_page_number := 2,
              image_url := ''https://x.test/b.png''\<rparr>]))
     = [\<lparr>title = ''Generating PDF'',
          description = ''Please wait while we create your edited PDF...'', variant = None\<rparr>,
        \<lparr>title = ''Success'', description = ''Your edited PDF has been downloaded'',
          variant = None\<rparr>]"
proof -
  let ?env = "example_export_env_for ''https://x.test/b.png''"
  let ?img = "example_image\<lparr>img_page_number := 2, image_url := ''https://x.test/b.png''\<rparr>"
  let ?s = "example_store [example_user] [example_image, ?img]"
  have h1: "loaded ?env = Inr [800, 800]" and h3: "save_error ?env = None"
    by (simp_all add: example_export_env_for_def)
  have h2: "draw_texts ?env [800, 800] (textEdits ?s) = Inr [DrawText 0 ''Note'' 50 688 12 (1, 0, 0)]"
    by (simp add: example_export_env_for_def example_store_def example_user_def page_at_def
        drawText_def toPdf_def truthy_def hexToRgb_def hex_digit_def)
  have h4: "?img \<in> set (imageEdits ?s)" by (simp add: example_store_def)
  have h5: "\<not> is_deleted ?img" and h6: "1 \<le> img_page_number ?img"
    and h7: "img_page_number ?img \<le> int (length [800, 800 :: real])"
    by (simp_all add: example_image_def)
  have h8: "embed_error ?env (image_url ?img) = Some ''Failed to fetch''"
    by (simp add: example_export_env_for_def)
  show ?thesis
    using h1 h2 h3 h8 export_skips_failed_images [OF h1 h2 h3 h4 h5 h6 h7 h8]
    by (simp add: downloadEditedPDF_def example_store_def example_user_def example_image_def
        example_export_env_for_def page_at_def drawImage_def toPdf_def
        List.map_filter_simps sublist_Cons_right)
qed

end
